theory Spec2Isabelle
  imports
    Main
    "HOL-Library.Char_ord"
    "HOL-Library.List_Lexorder"
    "HOL-Library.Multiset"
begin

unbundle bit_operations_syntax

section \<open>Strings\<close>

text \<open>
  Python \<open>str\<close> values are modelled by their UTF-8 byte strings, so that
  \<open>s.encode('utf-8')\<close> is the identity, \<open>+\<close> is \<open>@\<close>, and the order of
  \<open>sorted\<close> on strings (by code point) is the lexicographic order on bytes.
\<close>

definition digit_char :: "nat \<Rightarrow> char" where
  "digit_char n = ''0123456789'' ! (n mod 10)"

fun str_nat :: "nat \<Rightarrow> string" where
  "str_nat n = (if n < 10 then [digit_char n] else str_nat (n div 10) @ [digit_char n])"

declare str_nat.simps [simp del]

definition str_int :: "int \<Rightarrow> string" where
  "str_int i = (if i < 0 then ''-'' @ str_nat (nat (- i)) else str_nat (nat i))"

text \<open>\<open>sep.join(xs)\<close>\<close>

fun join :: "string \<Rightarrow> string list \<Rightarrow> string" where
  "join sep [] = []"
| "join sep [x] = x"
| "join sep (x # y # ys) = x @ sep @ join sep (y # ys)"

section \<open>\<open>hashlib.md5\<close>\<close>

text \<open>
  The MD5 message digest of RFC 1321, on 32-bit words written as natural numbers
  with the wrap-around \<open>mod 2^32\<close> written out. Each table row is
  \<open>(k, s, T)\<close>: the message word used, the rotation and the additive constant
  of one step.
\<close>

type_synonym w32 = nat
type_synonym md5_state = "w32 \<times> w32 \<times> w32 \<times> w32"

definition add32 :: "w32 \<Rightarrow> w32 \<Rightarrow> w32" where
  "add32 x y = (x + y) mod 4294967296"

definition not32 :: "w32 \<Rightarrow> w32" where
  "not32 x = 4294967295 - x mod 4294967296"

definition md5_F :: "w32 \<Rightarrow> w32 \<Rightarrow> w32 \<Rightarrow> w32" where
  "md5_F x y z = (x AND y) OR (not32 x AND z)"

definition md5_G :: "w32 \<Rightarrow> w32 \<Rightarrow> w32 \<Rightarrow> w32" where
  "md5_G x y z = (x AND z) OR (y AND not32 z)"

definition md5_H :: "w32 \<Rightarrow> w32 \<Rightarrow> w32 \<Rightarrow> w32" where
  "md5_H x y z = x XOR y XOR z"

definition md5_I :: "w32 \<Rightarrow> w32 \<Rightarrow> w32 \<Rightarrow> w32" where
  "md5_I x y z = y XOR (x OR not32 z)"

definition rotate_left :: "w32 \<Rightarrow> nat \<Rightarrow> w32" where
  "rotate_left x n = push_bit n x mod 4294967296 OR drop_bit (32 - n) x"

definition md5_round1 :: "(nat \<times> nat \<times> w32) list" where
  "md5_round1 = [
    (0, 7, 0xd76aa478), (1, 12, 0xe8c7b756), (2, 17, 0x242070db), (3, 22, 0xc1bdceee),
    (4, 7, 0xf57c0faf), (5, 12, 0x4787c62a), (6, 17, 0xa8304613), (7, 22, 0xfd469501),
    (8, 7, 0x698098d8), (9, 12, 0x8b44f7af), (10, 17, 0xffff5bb1), (11, 22, 0x895cd7be),
    (12, 7, 0x6b901122), (13, 12, 0xfd987193), (14, 17, 0xa679438e), (15, 22, 0x49b40821)]"

definition md5_round2 :: "(nat \<times> nat \<times> w32) list" where
  "md5_round2 = [
    (1, 5, 0xf61e2562), (6, 9, 0xc040b340), (11, 14, 0x265e5a51), (0, 20, 0xe9b6c7aa),
    (5, 5, 0xd62f105d), (10, 9, 0x02441453), (15, 14, 0xd8a1e681), (4, 20, 0xe7d3fbc8),
    (9, 5, 0x21e1cde6), (14, 9, 0xc33707d6), (3, 14, 0xf4d50d87), (8, 20, 0x455a14ed),
    (13, 5, 0xa9e3e905), (2, 9, 0xfcefa3f8), (7, 14, 0x676f02d9), (12, 20, 0x8d2a4c8a)]"

definition md5_round3 :: "(nat \<times> nat \<times> w32) list" where
  "md5_round3 = [
    (5, 4, 0xfffa3942), (8, 11, 0x8771f681), (11, 16, 0x6d9d6122), (14, 23, 0xfde5380c),
    (1, 4, 0xa4beea44), (4, 11, 0x4bdecfa9), (7, 16, 0xf6bb4b60), (10, 23, 0xbebfbc70),
    (13, 4, 0x289b7ec6), (0, 11, 0xeaa127fa), (3, 16, 0xd4ef3085), (6, 23, 0x04881d05),
    (9, 4, 0xd9d4d039), (12, 11, 0xe6db99e5), (15, 16, 0x1fa27cf8), (2, 23, 0xc4ac5665)]"

definition md5_round4 :: "(nat \<times> nat \<times> w32) list" where
  "md5_round4 = [
    (0, 6, 0xf4292244), (7, 10, 0x432aff97), (14, 15, 0xab9423a7), (5, 21, 0xfc93a039),
    (12, 6, 0x655b59c3), (3, 10, 0x8f0ccc92), (10, 15, 0xffeff47d), (1, 21, 0x85845dd1),
    (8, 6, 0x6fa87e4f), (15, 10, 0xfe2ce6e0), (6, 15, 0xa3014314), (13, 21, 0x4e0811a1),
    (4, 6, 0xf7537e82), (11, 10, 0xbd3af235), (2, 15, 0x2ad7d2bb), (9, 21, 0xeb86d391)]"

fun md5_op ::
  "(w32 \<Rightarrow> w32 \<Rightarrow> w32 \<Rightarrow> w32) \<Rightarrow> w32 list \<Rightarrow> nat \<times> nat \<times> w32 \<Rightarrow> md5_state \<Rightarrow> md5_state"
where
  "md5_op f X (k, s, t) (a, b, c, d) =
     (d, add32 b (rotate_left (add32 (add32 (add32 a (f b c d)) (X ! k)) t) s), b, c)"

fun md5_round ::
  "(w32 \<Rightarrow> w32 \<Rightarrow> w32 \<Rightarrow> w32) \<Rightarrow> w32 list \<Rightarrow> (nat \<times> nat \<times> w32) list \<Rightarrow> md5_state \<Rightarrow> md5_state"
where
  "md5_round f X [] s = s"
| "md5_round f X (r # rs) s = md5_round f X rs (md5_op f X r s)"

fun md5_block :: "md5_state \<Rightarrow> w32 list \<Rightarrow> md5_state" where
  "md5_block (a0, b0, c0, d0) X =
     (case md5_round md5_I X md5_round4
            (md5_round md5_H X md5_round3
              (md5_round md5_G X md5_round2
                (md5_round md5_F X md5_round1 (a0, b0, c0, d0)))) of
        (a, b, c, d) \<Rightarrow> (add32 a0 a, add32 b0 b, add32 c0 c, add32 d0 d))"

definition le_bytes4 :: "nat \<Rightarrow> nat list" where
  "le_bytes4 n = [n mod 256, n div 256 mod 256, n div 65536 mod 256, n div 16777216 mod 256]"

text \<open>Padding: a 1 bit, zeros up to 56 bytes modulo 64, the bit length in 64 bits.\<close>

definition md5_pad :: "nat list \<Rightarrow> nat list" where
  "md5_pad bs =
     bs @ [128] @ replicate ((119 - length bs mod 64) mod 64) 0 @
     le_bytes4 ((8 * length bs) mod 4294967296) @
     le_bytes4 ((8 * length bs) div 4294967296 mod 4294967296)"

fun le_words :: "nat list \<Rightarrow> w32 list" where
  "le_words (b0 # b1 # b2 # b3 # bs) =
     (b0 + 256 * b1 + 65536 * b2 + 16777216 * b3) # le_words bs"
| "le_words _ = []"

fun md5_blocks :: "md5_state \<Rightarrow> w32 list \<Rightarrow> md5_state" where
  "md5_blocks s ws = (if length ws < 16 then s
                      else md5_blocks (md5_block s (take 16 ws)) (drop 16 ws))"

declare md5_blocks.simps [simp del]

definition hex_digit :: "nat \<Rightarrow> char" where
  "hex_digit n = ''0123456789abcdef'' ! (n mod 16)"

definition hex_byte :: "nat \<Rightarrow> string" where
  "hex_byte n = [hex_digit (n div 16), hex_digit n]"

definition hex_le :: "w32 \<Rightarrow> string" where
  "hex_le w = concat (map hex_byte (le_bytes4 w))"

text \<open>\<open>m = hashlib.md5(); m.update(s); m.hexdigest()\<close>\<close>

definition md5_hexdigest :: "string \<Rightarrow> string" where
  "md5_hexdigest s =
     (case md5_blocks (0x67452301, 0xefcdab89, 0x98badcfe, 0x10325476)
             (le_words (md5_pad (map of_char s))) of
        (a, b, c, d) \<Rightarrow> hex_le a @ hex_le b @ hex_le c @ hex_le d)"

section \<open>Pods and message formatting\<close>

text \<open>
  JSON values, for \<open>pod.selectors\<close>, \<open>selectors_hash\<close> and the attachments of
  a direct message. \<open>json.dumps\<close> is a parameter of the operations that call it.
\<close>

datatype json = JStr string | JInt int | JList "json list" | JObj "(string \<times> json) list"

record pod =
  uid :: string
  namespace :: string
  name :: string
  owner :: "string option"
  selectors :: json

record asg =
  asg_name :: string
  region :: string
  desired_capacity :: int
  asg_str :: string

text \<open>\<open>'{}/{}'.format(pod.namespace, pod.name)\<close>\<close>

definition pod_name :: "pod \<Rightarrow> string" where
  "pod_name p = namespace p @ ''/'' @ name p"

definition generate_pod_string :: "pod list \<Rightarrow> string" where
  "generate_pod_string pods =
     (if length pods > 5
      then join '', '' (map pod_name (take 4 pods)) @ '', and '' @
           str_int (int (length pods) - 4) @ '' others''
      else join '', '' (map pod_name pods))"

text \<open>The rendering rule as the specification words it.\<close>

definition render_units_spec :: "pod list \<Rightarrow> string" where
  "render_units_spec units =
     (let total = length units in
      if total > 5
      then join '', '' (map (\<lambda>u. namespace u @ ''/'' @ name u) (take 4 units)) @
           '', and '' @ str_nat (total - 4) @ '' others''
      else join '', '' (map (\<lambda>u. namespace u @ ''/'' @ name u) units))"

text \<open>
  \<open>_cache_key(notifier, owner, message, pods)\<close>: the notifier is not used;
  \<open>sorted(pods, key=lambda p: p.uid)\<close> is the stable sort \<open>sort_key uid\<close>.
\<close>

definition md5_input :: "string \<Rightarrow> string \<Rightarrow> pod list \<Rightarrow> string" where
  "md5_input own message pods = own @ message @ concat (map uid (sort_key uid pods))"

definition cache_key :: "string \<Rightarrow> string \<Rightarrow> pod list \<Rightarrow> string" where
  "cache_key own message pods = ''v0.md5.'' @ md5_hexdigest (md5_input own message pods)"

section \<open>\<open>cachetools.TTLCache\<close>\<close>

text \<open>
  \<open>TTLCache(maxsize, ttl)\<close> of the cachetools library: an LRU cache whose
  items carry an expiry time. \<open>items\<close> lists key, value and expiry time, the least
  recently used item first. Every value has size 1. The timer is read from the
  world (\<open>now\<close>) and passed in as \<open>t\<close>; it is taken not to run backwards, so
  that the library's expiry list is sorted and \<open>expire\<close> removes exactly the
  expired items. An item is expired unless the timer is less than its expiry time
  (\<open>not (time < link.expires)\<close>, cachetools 5 and later; before version 5 an
  item was still found at the very second of its expiry, and the properties
  proved below stay away from that second).
\<close>

record ('k, 'v) ttl_cache =
  maxsize :: nat
  ttl :: nat
  items :: "('k \<times> 'v \<times> nat) list"

definition TTLCache :: "nat \<Rightarrow> nat \<Rightarrow> ('k, 'v) ttl_cache" where
  "TTLCache m t = \<lparr>maxsize = m, ttl = t, items = []\<rparr>"

definition del_key :: "'k \<Rightarrow> ('k \<times> 'a) list \<Rightarrow> ('k \<times> 'a) list" where
  "del_key k xs = filter (\<lambda>x. fst x \<noteq> k) xs"

definition expire :: "nat \<Rightarrow> ('k, 'v) ttl_cache \<Rightarrow> ('k, 'v) ttl_cache" where
  "expire t c = c\<lparr>items := filter (\<lambda>(k, v, e). t < e) (items c)\<rparr>"

text \<open>
  \<open>c[k]\<close>: \<open>None\<close> is \<open>KeyError\<close>. A key that is present is moved to the
  most recently used end, also when it has expired.
\<close>

definition getitem ::
  "('k, 'v) ttl_cache \<Rightarrow> nat \<Rightarrow> 'k \<Rightarrow> 'v option \<times> ('k, 'v) ttl_cache"
where
  "getitem c t k =
     (case map_of (items c) k of
        None \<Rightarrow> (None, c)
      | Some (v, e) \<Rightarrow>
          (if \<not> t < e then None else Some v,
           c\<lparr>items := del_key k (items c) @ [(k, v, e)]\<rparr>))"

text \<open>
  The loop of \<open>Cache.__setitem__\<close>:
  \<open>while currsize + size > maxsize: self.popitem()\<close>, where \<open>popitem\<close> removes
  the least recently used item.
\<close>

function popitems :: "('k, 'v) ttl_cache \<Rightarrow> ('k, 'v) ttl_cache" where
  "popitems c =
     (if length (items c) + 1 > maxsize c \<and> items c \<noteq> []
      then popitems (c\<lparr>items := tl (items c)\<rparr>)
      else c)"
  by pat_completeness auto
termination
  by (relation "measure (\<lambda>c. length (items c))") auto

declare popitems.simps [simp del]

text \<open>
  \<open>c[k] = v\<close>: \<open>True\<close> in the first component is \<open>ValueError\<close> (value too
  large), raised after the expired items have been removed.
\<close>

definition setitem ::
  "('k, 'v) ttl_cache \<Rightarrow> nat \<Rightarrow> 'k \<Rightarrow> 'v \<Rightarrow> bool \<times> ('k, 'v) ttl_cache"
where
  "setitem c t k v =
     (let c1 = expire t c in
      if 1 > maxsize c1 then (True, c1)
      else
        let c2 = (if map_of (items c1) k = None then popitems c1 else c1)
        in (False, c2\<lparr>items := del_key k (items c2) @ [(k, v, t + ttl c2)]\<rparr>))"

section \<open>The world: transport, logs and clock\<close>

text \<open>
  The exceptions the code distinguishes: \<open>requests.exceptions.ConnectionError\<close>, the
  other subclasses of \<open>requests.exceptions.RequestException\<close> (timeouts, invalid
  URLs, too many redirects, ...), and every other exception.
\<close>

datatype exn = ConnectionError string | RequestException string | OtherError string

fun is_ConnectionError :: "exn \<Rightarrow> bool" where
  "is_ConnectionError (ConnectionError _) = True"
| "is_ConnectionError _ = False"

fun is_RequestException :: "exn \<Rightarrow> bool" where
  "is_RequestException (OtherError _) = False"
| "is_RequestException _ = True"

fun exn_str :: "exn \<Rightarrow> string" where
  "exn_str (ConnectionError s) = s"
| "exn_str (RequestException s) = s"
| "exn_str (OtherError s) = s"

text \<open>\<open>requests.post(url, json=...)\<close> and \<open>requests.post(url, data=...)\<close>\<close>

datatype request =
  JsonPost string "(string \<times> string) list"
| FormPost string "(string \<times> string) list"

datatype outcome = Response string | Raises exn

text \<open>
  The network answers a request, given the requests made so far, with a response
  text or an exception, after some time.
\<close>

type_synonym network = "request list \<Rightarrow> request \<Rightarrow> outcome \<times> nat"

datatype log_value = LStr string | LInt int | LJson json

datatype log_entry =
  Debug string
| Critical string
| Struct string "(string \<times> log_value) list"

record world =
  posts :: "request list"
  logs :: "log_entry list"
  now :: nat

definition requests_post :: "network \<Rightarrow> request \<Rightarrow> world \<Rightarrow> outcome \<times> world" where
  "requests_post net r w =
     (case net (posts w) r of
        (out, dt) \<Rightarrow> (out, w\<lparr>posts := posts w @ [r], now := now w + dt\<rparr>))"

definition log_debug :: "string \<Rightarrow> world \<Rightarrow> world" where
  "log_debug s w = w\<lparr>logs := logs w @ [Debug s]\<rparr>"

definition log_critical :: "string \<Rightarrow> world \<Rightarrow> world" where
  "log_critical s w = w\<lparr>logs := logs w @ [Critical s]\<rparr>"

text \<open>\<open>d[k] = v\<close> on a dict that keeps insertion order\<close>

fun dict_set :: "'a \<Rightarrow> 'b \<Rightarrow> ('a \<times> 'b) list \<Rightarrow> ('a \<times> 'b) list" where
  "dict_set k v [] = [(k, v)]"
| "dict_set k v ((k', v') # d) = (if k = k' then (k, v) # d else (k', v') # dict_set k v d)"

definition struct_log ::
  "string \<Rightarrow> pod list \<Rightarrow> (string \<times> log_value) list \<Rightarrow> world \<Rightarrow> world"
where
  "struct_log message pods extra w =
     fold (\<lambda>p w'.
        w'\<lparr>logs := logs w' @
          [Struct message
            (fold (\<lambda>(k, v). dict_set k v) extra
              [(''pod_name'', LStr (pod_name p)),
               (''pod_id'', LStr (uid p)),
               (''_log_streaming_target_mapping'', LStr ''kubernetes-ec2-autoscaler'')])]\<rparr>)
       pods w"

section \<open>The notifier\<close>

record notifier =
  hook :: "string option"
  bot_token :: "string option"
  cache :: "(string, unit) ttl_cache"

definition MESSAGE_URL :: string where
  "MESSAGE_URL = ''https://slack.com/api/chat.postMessage''"

text \<open>\<open>Notifier.__init__\<close>\<close>

definition Notifier :: "string option \<Rightarrow> string option \<Rightarrow> notifier" where
  "Notifier h b = \<lparr>hook = h, bot_token = b, cache = TTLCache 128 (60 * 30)\<rparr>"

text \<open>
  The truth value of an optional string: \<open>None\<close> and the empty string are false.
  \<open>configured x\<close> is the string when \<open>x\<close> is true.
\<close>

definition configured :: "string option \<Rightarrow> string option" where
  "configured x = (case x of None \<Rightarrow> None | Some s \<Rightarrow> if s = [] then None else Some s)"

text \<open>
  The \<open>try\<close> block that each \<open>notify_*\<close> method runs for the hook: only
  \<open>ConnectionError\<close> is caught there.
\<close>

definition hook_request :: "string \<Rightarrow> string \<Rightarrow> request" where
  "hook_request h message =
     JsonPost h [(''text'', message),
                 (''username'', ''kubernetes-ec2-autoscaler''),
                 (''icon_emoji'', '':rabbit:'')]"

definition post_hook :: "network \<Rightarrow> string \<Rightarrow> string \<Rightarrow> world \<Rightarrow> (exn + unit) \<times> world" where
  "post_hook net h message w =
     (case requests_post net (hook_request h message) w of
        (Response text, w') \<Rightarrow> (Inr (), log_debug (''SLACK: '' @ text) w')
      | (Raises e, w') \<Rightarrow>
          if is_ConnectionError e
          then (Inr (), log_critical (''Failed to SLACK: '' @ exn_str e) w')
          else (Inl e, w'))"

text \<open>The request that \<open>message_owner\<close> posts to \<open>MESSAGE_URL\<close>.\<close>

definition owner_request ::
  "(json \<Rightarrow> string) \<Rightarrow> notifier \<Rightarrow> string \<Rightarrow> string \<Rightarrow> pod list \<Rightarrow> request"
where
  "owner_request json_dumps n own message pods =
     (let attachments =
            JList [JObj [(''pretext'', JStr ''Relevant pods''),
                         (''text'', JStr (join '', '' (map pod_name pods)))]]
      in FormPost MESSAGE_URL
           ([(''text'', message),
             (''attachments'', json_dumps attachments)] @
            (case bot_token n of None \<Rightarrow> [] | Some tok \<Rightarrow> [(''token'', tok)]) @
            [(''channel'', ''@'' @ own),
             (''username'', ''kubernetes-ec2-autoscaler''),
             (''icon_emoji'', '':rabbit:'')]))"

text \<open>The body of \<open>message_owner\<close>, which the \<open>cachedmethod\<close> decorator wraps.\<close>

definition message_owner_wrapped ::
  "(json \<Rightarrow> string) \<Rightarrow> network \<Rightarrow> notifier \<Rightarrow> string \<Rightarrow> string \<Rightarrow> pod list \<Rightarrow> world
   \<Rightarrow> (exn + unit) \<times> world"
where
  "message_owner_wrapped json_dumps net n own message pods w =
     (case requests_post net (owner_request json_dumps n own message pods) w of
        (Response text, w') \<Rightarrow> (Inr (), log_debug (''SLACK: '' @ text) w')
      | (Raises e, w') \<Rightarrow>
          if is_RequestException e
          then (Inr (), log_critical (''Failed to SLACK: '' @ exn_str e) w')
          else (Inl e, w'))"

text \<open>
  \<open>message_owner\<close> as decorated with
  \<open>cachedmethod(operator.attrgetter('cache'), key=_cache_key)\<close>, no lock: look the
  key up; on \<open>KeyError\<close> call the method and store its result (\<open>None\<close>), ignoring
  \<open>ValueError\<close>. An exception of the method propagates and nothing is stored.
\<close>

definition message_owner ::
  "(json \<Rightarrow> string) \<Rightarrow> network \<Rightarrow> notifier \<Rightarrow> string \<Rightarrow> string \<Rightarrow> pod list \<Rightarrow> world
   \<Rightarrow> (exn + unit) \<times> notifier \<times> world"
where
  "message_owner json_dumps net n own message pods w =
     (let k = cache_key own message pods in
      case getitem (cache n) (now w) k of
        (Some v, c1) \<Rightarrow> (Inr v, n\<lparr>cache := c1\<rparr>, w)
      | (None, c1) \<Rightarrow>
          (case message_owner_wrapped json_dumps net (n\<lparr>cache := c1\<rparr>) own message pods w of
             (Inl e, w') \<Rightarrow> (Inl e, n\<lparr>cache := c1\<rparr>, w')
           | (Inr v, w') \<Rightarrow> (Inr v, n\<lparr>cache := snd (setitem c1 (now w') k v)\<rparr>, w')))"

text \<open>\<open>pods_by_owner.setdefault(pod.owner, []).append(pod)\<close>\<close>

definition setdefault_append ::
  "string \<Rightarrow> pod \<Rightarrow> (string \<times> pod list) list \<Rightarrow> (string \<times> pod list) list"
where
  "setdefault_append own p d =
     (case map_of d own of
        None \<Rightarrow> d @ [(own, [p])]
      | Some ps \<Rightarrow> dict_set own (ps @ [p]) d)"

definition pods_by_owner :: "pod list \<Rightarrow> (string \<times> pod list) list" where
  "pods_by_owner pods =
     fold (\<lambda>p d. case configured (owner p) of
                    None \<Rightarrow> d
                  | Some own \<Rightarrow> setdefault_append own p d) pods []"

text \<open>
  The loop \<open>for owner, pods in pods_by_owner.items()\<close>, in insertion order; an
  exception ends it.
\<close>

fun message_each ::
  "(json \<Rightarrow> string) \<Rightarrow> network \<Rightarrow> string \<Rightarrow> (string \<times> pod list) list \<Rightarrow> notifier \<Rightarrow> world
   \<Rightarrow> (exn + unit) \<times> notifier \<times> world"
where
  "message_each json_dumps net message [] n w = (Inr (), n, w)"
| "message_each json_dumps net message ((own, ps) # rest) n w =
     (case message_owner json_dumps net n own message ps w of
        (Inl e, n', w') \<Rightarrow> (Inl e, n', w')
      | (Inr _, n', w') \<Rightarrow> message_each json_dumps net message rest n' w')"

definition message_owners ::
  "(json \<Rightarrow> string) \<Rightarrow> network \<Rightarrow> notifier \<Rightarrow> string \<Rightarrow> pod list \<Rightarrow> world
   \<Rightarrow> (exn + unit) \<times> notifier \<times> world"
where
  "message_owners json_dumps net n message pods w =
     (if configured (bot_token n) = None
      then (Inr (), n, log_debug ''SLACK_BOT_TOKEN not configured.'' w)
      else message_each json_dumps net message (pods_by_owner pods) n w)"

definition notify_scale ::
  "(json \<Rightarrow> string) \<Rightarrow> network \<Rightarrow> notifier \<Rightarrow> asg \<Rightarrow> int \<Rightarrow> pod list \<Rightarrow> world
   \<Rightarrow> (exn + unit) \<times> notifier \<times> world"
where
  "notify_scale json_dumps net n a units_requested pods w =
     (let w1 = struct_log ''scale'' pods
                 [(''asg'', LStr (asg_str a)), (''units_requested'', LInt units_requested)] w
      in case configured (hook n) of
        None \<Rightarrow> (Inr (), n, log_debug ''SLACK_HOOK not configured.'' w1)
      | Some h \<Rightarrow>
          (let pods_string = generate_pod_string pods;
               message = ''ASG '' @ asg_name a @ ''['' @ region a @ ''] scaling up by '' @
                         str_int units_requested @ '' to new capacity '' @
                         str_int (desired_capacity a) @ [CHR 0x0A] @
                         ''Change triggered by '' @ pods_string
           in case post_hook net h message w1 of
             (Inl e, w2) \<Rightarrow> (Inl e, n, w2)
           | (Inr _, w2) \<Rightarrow>
               message_owners json_dumps net n
                 (''ASG '' @ asg_name a @ ''['' @ region a @ ''] scaling up'') pods w2))"

definition notify_failed_to_scale ::
  "(json \<Rightarrow> string) \<Rightarrow> network \<Rightarrow> notifier \<Rightarrow> json \<Rightarrow> pod list \<Rightarrow> world
   \<Rightarrow> (exn + unit) \<times> notifier \<times> world"
where
  "notify_failed_to_scale json_dumps net n selectors_hash pods w =
     (let w1 = struct_log ''failed to scale'' pods
                 [(''selectors_hash'', LJson selectors_hash)] w
      in case configured (hook n) of
        None \<Rightarrow> (Inr (), n, log_debug ''SLACK_HOOK not configured.'' w1)
      | Some h \<Rightarrow>
          (let pods_string = generate_pod_string pods;
               main_message = ''Failed to scale '' @ json_dumps selectors_hash @
                              '' sufficiently. Backing off...'';
               message = main_message @ [CHR 0x0A] @ ''Pods affected: '' @ pods_string
           in case post_hook net h message w1 of
             (Inl e, w2) \<Rightarrow> (Inl e, n, w2)
           | (Inr _, w2) \<Rightarrow> message_owners json_dumps net n main_message pods w2))"

definition notify_invalid_pod_capacity ::
  "(json \<Rightarrow> string) \<Rightarrow> network \<Rightarrow> notifier \<Rightarrow> pod \<Rightarrow> string \<Rightarrow> world
   \<Rightarrow> (exn + unit) \<times> notifier \<times> world"
where
  "notify_invalid_pod_capacity json_dumps net n p recommended_capacity w =
     (let w1 = struct_log ''invalid pod capacity'' [p]
                 [(''recommended_capacity'', LStr recommended_capacity)] w
      in case configured (hook n) of
        None \<Rightarrow> (Inr (), n, log_debug ''SLACK_HOOK not configured.'' w1)
      | Some h \<Rightarrow>
          (let message = ''Pending pod '' @ namespace p @ ''/'' @ name p @ '' cannot fit '' @
                         json_dumps (selectors p) @ ''. '' @
                         ''Please check that requested resource amount is '' @
                         ''consistent with node selectors (recommended max: '' @
                         recommended_capacity @ ''). '' @
                         ''Scheduling skipped.''
           in case post_hook net h message w1 of
             (Inl e, w2) \<Rightarrow> (Inl e, n, w2)
           | (Inr _, w2) \<Rightarrow> message_owners json_dumps net n message [p] w2))"

definition notify_drained_node ::
  "network \<Rightarrow> notifier \<Rightarrow> string \<Rightarrow> pod list \<Rightarrow> world \<Rightarrow> (exn + unit) \<times> notifier \<times> world"
where
  "notify_drained_node net n node pods w =
     (let w1 = struct_log ''drain'' pods [(''node'', LStr node)] w
      in case configured (hook n) of
        None \<Rightarrow> (Inr (), n, log_debug ''SLACK_HOOK not configured.'' w1)
      | Some h \<Rightarrow>
          (let pods_string = generate_pod_string pods;
               message = ''Node '' @ node @ '' drained.'' @ [CHR 0x0A] @
                         ''Pod affected: '' @ pods_string
           in case post_hook net h message w1 of
             (Inl e, w2) \<Rightarrow> (Inl e, n, w2)
           | (Inr _, w2) \<Rightarrow> (Inr (), n, w2)))"

text \<open>
  Every pod of every group of \<open>d\<close> is one of \<open>S\<close> and has the group's key as its
  (true) owner.
\<close>

definition owned_groups :: "pod set \<Rightarrow> (string \<times> pod list) list \<Rightarrow> bool" where
  "owned_groups S d \<longleftrightarrow>
     (\<forall>(own, ps) \<in> set d. \<forall>p \<in> set ps. p \<in> S \<and> configured (owner p) = Some own)"

section \<open>Example inputs\<close>

definition pod1 :: pod where
  "pod1 = \<lparr>uid = ''id1'', namespace = ''default'', name = ''p1'', owner = Some ''alice'',
            selectors = JObj []\<rparr>"

definition pod2 :: pod where
  "pod2 = \<lparr>uid = ''id2'', namespace = ''default'', name = ''p2'', owner = Some ''alice'',
            selectors = JObj []\<rparr>"

definition pod_unowned :: pod where
  "pod_unowned = \<lparr>uid = ''id3'', namespace = ''kube-system'', name = ''p3'', owner = None,
                   selectors = JObj []\<rparr>"

definition pod_empty_owner :: pod where
  "pod_empty_owner = \<lparr>uid = ''id4'', namespace = ''kube-system'', name = ''p4'',
                       owner = Some [], selectors = JObj []\<rparr>"

definition pod_ab :: pod where
  "pod_ab = \<lparr>uid = ''ab'', namespace = ''default'', name = ''p5'', owner = Some ''alice'',
             selectors = JObj []\<rparr>"

definition pod_a :: pod where
  "pod_a = \<lparr>uid = ''a'', namespace = ''default'', name = ''p6'', owner = Some ''alice'',
            selectors = JObj []\<rparr>"

definition pod_b :: pod where
  "pod_b = \<lparr>uid = ''b'', namespace = ''default'', name = ''p7'', owner = Some ''alice'',
            selectors = JObj []\<rparr>"

definition asg1 :: asg where
  "asg1 = \<lparr>asg_name = ''asg-1'', region = ''us-east-1'', desired_capacity = 10,
            asg_str = ''asg-1[us-east-1]''\<rparr>"

definition world0 :: world where
  "world0 = \<lparr>posts = [], logs = [], now = 0\<rparr>"

text \<open>A network that answers every request after one second.\<close>

definition net_ok :: network where
  "net_ok hist r = (Response ''ok'', 1)"

text \<open>A network on which every request raises the given exception.\<close>

definition net_raises :: "exn \<Rightarrow> network" where
  "net_raises e hist r = (Raises e, 1)"

definition dumps0 :: "json \<Rightarrow> string" where
  "dumps0 j = ''{}''"

section \<open>Sequences of calls\<close>










section \<open>Cache invariant\<close>


section \<open>Properties\<close>

lemma str_nat_digit: "n < 10 \<Longrightarrow> str_nat n = [digit_char n]"
  by (simp add: str_nat.simps)

text \<open>
  C7. A list of more than 5 units is rendered as its first 4 units, as
  namespace/name joined by ", ", followed by ", and K others" with K = total - 4;
  a list of at most 5 units is rendered in full.  A 5-unit list shows all 5 names
  and a 6-unit list shows 4 names and ", and 2 others".
\<close>

theorem generate_pod_string_rule:
  "generate_pod_string pods = render_units_spec pods
   \<and> (length pods \<le> 5 \<longrightarrow> generate_pod_string pods = join '', '' (map pod_name pods))
   \<and> (length pods > 5 \<longrightarrow>
        generate_pod_string pods =
          join '', '' (map pod_name (take 4 pods)) @ '', and '' @
          str_nat (length pods - 4) @ '' others'')
   \<and> generate_pod_string [p1, p2, p3, p4, p5] =
        pod_name p1 @ '', '' @ pod_name p2 @ '', '' @ pod_name p3 @ '', '' @
        pod_name p4 @ '', '' @ pod_name p5
   \<and> generate_pod_string [p1, p2, p3, p4, p5, p6] =
        pod_name p1 @ '', '' @ pod_name p2 @ '', '' @ pod_name p3 @ '', '' @
        pod_name p4 @ '', and 2 others''"
proof -
  have k: "length pods > 5 \<Longrightarrow> str_int (int (length pods) - 4) = str_nat (length pods - 4)"
    by (simp add: str_int_def nat_diff_distrib')
  have two: "str_nat 2 = ''2''"
    by (simp add: str_nat_digit digit_char_def)
  have pn: "pod_name = (\<lambda>u. namespace u @ ''/'' @ name u)"
    by (rule ext) (simp add: pod_name_def)
  have a: "generate_pod_string pods = render_units_spec pods"
    using k by (simp add: generate_pod_string_def render_units_spec_def pn Let_def)
  have b: "length pods \<le> 5 \<longrightarrow> generate_pod_string pods = join '', '' (map pod_name pods)"
    by (simp add: generate_pod_string_def)
  have c: "length pods > 5 \<longrightarrow>
        generate_pod_string pods =
          join '', '' (map pod_name (take 4 pods)) @ '', and '' @
          str_nat (length pods - 4) @ '' others''"
    using k by (simp add: generate_pod_string_def)
  have d: "generate_pod_string [p1, p2, p3, p4, p5] =
        pod_name p1 @ '', '' @ pod_name p2 @ '', '' @ pod_name p3 @ '', '' @
        pod_name p4 @ '', '' @ pod_name p5"
    by (simp add: generate_pod_string_def)
  have e: "generate_pod_string [p1, p2, p3, p4, p5, p6] =
        pod_name p1 @ '', '' @ pod_name p2 @ '', '' @ pod_name p3 @ '', '' @
        pod_name p4 @ '', and 2 others''"
    by (simp add: generate_pod_string_def str_int_def two)
  from a b c d e show ?thesis by blast
qed

theorem generate_pod_string_rule_witness:
  "length
    [\<lparr>uid = ''id1'', namespace = ''default'', name = ''p1'', owner = Some ''alice'', selectors = JObj []\<rparr>,
     \<lparr>uid = ''id2'', namespace = ''default'', name = ''p2'', owner = Some ''alice'', selectors = JObj []\<rparr>] \<le> 5
   \<and> generate_pod_string
    [\<lparr>uid = ''id1'', namespace = ''default'', name = ''p1'', owner = Some ''alice'', selectors = JObj []\<rparr>,
     \<lparr>uid = ''id2'', namespace = ''default'', name = ''p2'', owner = Some ''alice'', selectors = JObj []\<rparr>] = ''default/p1, default/p2''
   \<and> length
    [\<lparr>uid = ''id1'', namespace = ''default'', name = ''p1'', owner = Some ''alice'', selectors = JObj []\<rparr>,
     \<lparr>uid = ''id2'', namespace = ''default'', name = ''p2'', owner = Some ''alice'', selectors = JObj []\<rparr>,
     \<lparr>uid = ''id3'', namespace = ''default'', name = ''p3'', owner = Some ''alice'', selectors = JObj []\<rparr>,
     \<lparr>uid = ''id4'', namespace = ''default'', name = ''p4'', owner = Some ''alice'', selectors = JObj []\<rparr>,
     \<lparr>uid = ''id5'', namespace = ''default'', name = ''p5'', owner = Some ''alice'', selectors = JObj []\<rparr>,
     \<lparr>uid = ''id6'', namespace = ''default'', name = ''p6'', owner = Some ''alice'', selectors = JObj []\<rparr>,
     \<lparr>uid = ''id7'', namespace = ''default'', name = ''p7'', owner = Some ''alice'', selectors = JObj []\<rparr>] > 5
   \<and> generate_pod_string
    [\<lparr>uid = ''id1'', namespace = ''default'', name = ''p1'', owner = Some ''alice'', selectors = JObj []\<rparr>,
     \<lparr>uid = ''id2'', namespace = ''default'', name = ''p2'', owner = Some ''alice'', selectors = JObj []\<rparr>,
     \<lparr>uid = ''id3'', namespace = ''default'', name = ''p3'', owner = Some ''alice'', selectors = JObj []\<rparr>,
     \<lparr>uid = ''id4'', namespace = ''default'', name = ''p4'', owner = Some ''alice'', selectors = JObj []\<rparr>,
     \<lparr>uid = ''id5'', namespace = ''default'', name = ''p5'', owner = Some ''alice'', selectors = JObj []\<rparr>,
     \<lparr>uid = ''id6'', namespace = ''default'', name = ''p6'', owner = Some ''alice'', selectors = JObj []\<rparr>,
     \<lparr>uid = ''id7'', namespace = ''default'', name = ''p7'', owner = Some ''alice'', selectors = JObj []\<rparr>] = ''default/p1, default/p2, default/p3, default/p4, and 3 others''"
proof -
  let ?p = "\<lparr>uid = ''id1'', namespace = ''default'', name = ''p1'', owner = Some ''alice'', selectors = JObj []\<rparr>"
  let ?two = "[\<lparr>uid = ''id1'', namespace = ''default'', name = ''p1'', owner = Some ''alice'', selectors = JObj []\<rparr>,
     \<lparr>uid = ''id2'', namespace = ''default'', name = ''p2'', owner = Some ''alice'', selectors = JObj []\<rparr>]"
  let ?seven = "[\<lparr>uid = ''id1'', namespace = ''default'', name = ''p1'', owner = Some ''alice'', selectors = JObj []\<rparr>,
     \<lparr>uid = ''id2'', namespace = ''default'', name = ''p2'', owner = Some ''alice'', selectors = JObj []\<rparr>,
     \<lparr>uid = ''id3'', namespace = ''default'', name = ''p3'', owner = Some ''alice'', selectors = JObj []\<rparr>,
     \<lparr>uid = ''id4'', namespace = ''default'', name = ''p4'', owner = Some ''alice'', selectors = JObj []\<rparr>,
     \<lparr>uid = ''id5'', namespace = ''default'', name = ''p5'', owner = Some ''alice'', selectors = JObj []\<rparr>,
     \<lparr>uid = ''id6'', namespace = ''default'', name = ''p6'', owner = Some ''alice'', selectors = JObj []\<rparr>,
     \<lparr>uid = ''id7'', namespace = ''default'', name = ''p7'', owner = Some ''alice'', selectors = JObj []\<rparr>]"
  have a: "length ?two \<le> 5" and b: "length ?seven > 5"
    by simp_all
  from a generate_pod_string_rule [of ?two ?p ?p ?p ?p ?p ?p]
  have c: "generate_pod_string ?two = join '', '' (map pod_name ?two)"
    by blast
  from b generate_pod_string_rule [of ?seven ?p ?p ?p ?p ?p ?p]
  have d: "generate_pod_string ?seven =
      join '', '' (map pod_name (take 4 ?seven)) @ '', and '' @
      str_nat (length ?seven - 4) @ '' others''"
    by blast
  show ?thesis
    unfolding c d by (simp add: pod_name_def str_nat_digit digit_char_def)
qed

subsection \<open>Grouping by owner\<close>

lemma set_dict_set: "x \<in> set (dict_set k v d) \<Longrightarrow> x = (k, v) \<or> x \<in> set d"
  by (induction d) (auto split: if_splits)

lemma set_setdefault_append:
  assumes "(own', ps') \<in> set (setdefault_append own p d)"
  shows "(own', ps') \<in> set d \<or>
         (own' = own \<and> (ps' = [p] \<or> (\<exists>ps. (own, ps) \<in> set d \<and> ps' = ps @ [p])))"
proof (cases "map_of d own")
  case None
  with assms show ?thesis by (auto simp: setdefault_append_def)
next
  case (Some ps)
  then have "(own, ps) \<in> set d" by (rule map_of_SomeD)
  with assms Some show ?thesis
    by (auto simp: setdefault_append_def dest!: set_dict_set)
qed

lemma owned_groups_fold:
  "owned_groups S d \<Longrightarrow> set pods \<subseteq> S \<Longrightarrow>
   owned_groups S (fold (\<lambda>p d. case configured (owner p) of
                    None \<Rightarrow> d
                  | Some own \<Rightarrow> setdefault_append own p d) pods d)"
proof (induction pods arbitrary: d)
  case Nil
  then show ?case by simp
next
  case (Cons p pods)
  show ?case
  proof (cases "configured (owner p)")
    case None
    with Cons show ?thesis by simp
  next
    case (Some own)
    have "owned_groups S (setdefault_append own p d)"
      unfolding owned_groups_def
    proof (clarify)
      fix own' ps' q
      assume a: "(own', ps') \<in> set (setdefault_append own p d)" and q: "q \<in> set ps'"
      from set_setdefault_append [OF a] q Cons.prems Some
      show "q \<in> S \<and> configured (owner q) = Some own'"
        by (fastforce simp: owned_groups_def)
    qed
    with Cons Some show ?thesis by simp
  qed
qed

lemma pods_by_owner_owned: "owned_groups (set pods) (pods_by_owner pods)"
  unfolding pods_by_owner_def
  by (rule owned_groups_fold) (simp_all add: owned_groups_def)

lemma configured_Some: "configured x = Some s \<longleftrightarrow> x = Some s \<and> s \<noteq> []"
  by (auto simp: configured_def split: option.splits)

lemma pods_by_owner_none:
  "\<forall>p \<in> set pods. configured (owner p) = None \<Longrightarrow>
   fold (\<lambda>p d. case configured (owner p) of
                    None \<Rightarrow> d
                  | Some own \<Rightarrow> setdefault_append own p d) pods d = d"
  by (induction pods arbitrary: d) auto

text \<open>
  C9. Every pod of every owner group that \<open>message_owners\<close> builds is one of the
  given pods and has that owner, which is not empty: a pod with no owner is in no
  group. When no pod has an owner there is no group, and \<open>message_owners\<close> posts
  nothing and leaves the notifier as it is.
\<close>

theorem message_owners_excludes_unowned:
  "(\<forall>(own, ps) \<in> set (pods_by_owner pods). \<forall>p \<in> set ps.
        p \<in> set pods \<and> owner p = Some own \<and> own \<noteq> [])
   \<and> ((\<forall>p \<in> set pods. owner p = None \<or> owner p = Some []) \<longrightarrow>
        pods_by_owner pods = []
        \<and> message_owners json_dumps net n message pods w =
            (Inr (), n, if configured (bot_token n) = None
                        then log_debug ''SLACK_BOT_TOKEN not configured.'' w else w))"
proof -
  have a: "\<forall>(own, ps) \<in> set (pods_by_owner pods). \<forall>p \<in> set ps.
        p \<in> set pods \<and> owner p = Some own \<and> own \<noteq> []"
    using pods_by_owner_owned [of pods]
    by (auto simp: owned_groups_def configured_Some)
  have b: "pods_by_owner pods = []" if "\<forall>p \<in> set pods. owner p = None \<or> owner p = Some []"
  proof -
    from that have "\<forall>p \<in> set pods. configured (owner p) = None"
      by (auto simp: configured_def)
    then show ?thesis
      unfolding pods_by_owner_def by (rule pods_by_owner_none)
  qed
  from a b show ?thesis
    by (auto simp: message_owners_def)
qed

theorem message_owners_excludes_unowned_witness:
  "(''alice'', [pod1, pod2]) \<in> set (pods_by_owner [pod_unowned, pod1, pod_empty_owner, pod2])
   \<and> pod1 \<in> set [pod1, pod2]
   \<and> owner pod1 = Some ''alice''
   \<and> owner pod_unowned = None
   \<and> owner pod_empty_owner = Some []
   \<and> message_owners dumps0 net_ok (Notifier None (Some ''xoxb-1'')) ''m''
        [pod_unowned, pod_empty_owner] world0 =
      (Inr (), Notifier None (Some ''xoxb-1''), world0)"
proof -
  have o: "owner pod_unowned = None" "owner pod_empty_owner = Some []"
    by (simp_all add: pod_unowned_def pod_empty_owner_def)
  have g: "pods_by_owner [pod_unowned, pod1, pod_empty_owner, pod2] = [(''alice'', [pod1, pod2])]"
    by (simp add: pods_by_owner_def setdefault_append_def configured_def pod1_def pod2_def
        pod_unowned_def pod_empty_owner_def)
  have u: "\<forall>p \<in> set [pod_unowned, pod_empty_owner]. owner p = None \<or> owner p = Some []"
    by (simp add: pod_unowned_def pod_empty_owner_def)
  from message_owners_excludes_unowned
         [of "[pod_unowned, pod1, pod_empty_owner, pod2]" dumps0 net_ok
             "Notifier None (Some ''xoxb-1'')" "''m''" world0] g
  have a: "owner pod1 = Some ''alice''"
    by simp
  from message_owners_excludes_unowned
         [of "[pod_unowned, pod_empty_owner]" dumps0 net_ok
             "Notifier None (Some ''xoxb-1'')" "''m''" world0] u
  have b: "message_owners dumps0 net_ok (Notifier None (Some ''xoxb-1'')) ''m''
        [pod_unowned, pod_empty_owner] world0 =
      (Inr (), Notifier None (Some ''xoxb-1''), world0)"
    by (simp add: configured_def Notifier_def)
  from g o a b show ?thesis by simp
qed

subsection \<open>Logs and the hook\<close>

lemma struct_log_fields:
  "posts (struct_log m pods extra w) = posts w"
  "now (struct_log m pods extra w) = now w"
  "logs (struct_log m pods extra w) =
     logs w @ map (\<lambda>p. Struct m
            (fold (\<lambda>(k, v). dict_set k v) extra
              [(''pod_name'', LStr (pod_name p)),
               (''pod_id'', LStr (uid p)),
               (''_log_streaming_target_mapping'', LStr ''kubernetes-ec2-autoscaler'')])) pods"
  unfolding struct_log_def
  by (induction pods arbitrary: w) simp_all

lemma post_hook_posts:
  "posts (snd (post_hook net h message w)) = posts w @ [hook_request h message]"
  by (simp add: post_hook_def requests_post_def log_debug_def log_critical_def
      split: prod.splits outcome.splits)

lemma post_hook_logs:
  "\<exists>ls. logs (snd (post_hook net h message w)) = logs w @ ls \<and> length ls \<le> 1"
  by (simp add: post_hook_def requests_post_def log_debug_def log_critical_def
      split: prod.splits outcome.splits)

text \<open>
  C8. A drain event leaves the notifier, and with it the fingerprint cache,
  unchanged; the only request it makes is the broadcast to the hook, when a hook
  is configured; its log is the structured records followed by at most one line
  about the broadcast. No direct message is sent, whoever owns the pods.
\<close>

theorem notify_drained_node_only_broadcast:
  "fst (snd (notify_drained_node net n node pods w)) = n
   \<and> posts (snd (snd (notify_drained_node net n node pods w))) =
       posts w @
       (case configured (hook n) of
          None \<Rightarrow> []
        | Some h \<Rightarrow>
            [hook_request h (''Node '' @ node @ '' drained.'' @ [CHR 0x0A] @
                            ''Pod affected: '' @ generate_pod_string pods)])
   \<and> (\<exists>ls. logs (snd (snd (notify_drained_node net n node pods w))) =
             logs (struct_log ''drain'' pods [(''node'', LStr node)] w) @ ls
           \<and> length ls \<le> 1)"
proof (cases "configured (hook n)")
  case None
  then show ?thesis
    by (simp add: notify_drained_node_def Let_def log_debug_def struct_log_fields)
next
  case (Some h)
  let ?w1 = "struct_log ''drain'' pods [(''node'', LStr node)] w"
  let ?m = "''Node '' @ node @ '' drained.'' @ [CHR 0x0A] @
            ''Pod affected: '' @ generate_pod_string pods"
  obtain r w2 where ph: "post_hook net h ?m ?w1 = (r, w2)"
    by (cases "post_hook net h ?m ?w1")
  from post_hook_posts [of net h ?m ?w1] ph
  have p: "posts w2 = posts w @ [hook_request h ?m]"
    by (simp add: struct_log_fields)
  from post_hook_logs [of net h ?m ?w1] ph
  have l: "\<exists>ls. logs w2 = logs ?w1 @ ls \<and> length ls \<le> 1"
    by simp
  from Some ph p l show ?thesis
    by (cases r) (simp_all add: notify_drained_node_def Let_def)
qed

subsection \<open>Direct messages\<close>

lemma getitem_empty: "getitem (TTLCache m t) t' k = (None, TTLCache m t)"
  by (simp add: getitem_def TTLCache_def)

lemma owner_request_cache [simp]:
  "owner_request json_dumps (n\<lparr>cache := c\<rparr>) = owner_request json_dumps n"
  by (rule ext)+ (simp add: owner_request_def)

lemma message_owner_wrapped_posts:
  "posts (snd (message_owner_wrapped json_dumps net n own message pods w)) =
     posts w @ [owner_request json_dumps n own message pods]"
  by (simp add: message_owner_wrapped_def requests_post_def log_debug_def log_critical_def
      split: prod.splits outcome.splits)

lemma message_owner_miss_posts:
  assumes "fst (getitem (cache n) (now w) (cache_key own message pods)) = None"
  shows "posts (snd (snd (message_owner json_dumps net n own message pods w))) =
           posts w @ [owner_request json_dumps n own message pods]"
proof -
  obtain c1 where g: "getitem (cache n) (now w) (cache_key own message pods) = (None, c1)"
    using assms by (cases "getitem (cache n) (now w) (cache_key own message pods)") simp
  obtain r w' where m:
    "message_owner_wrapped json_dumps net (n\<lparr>cache := c1\<rparr>) own message pods w = (r, w')"
    by (cases "message_owner_wrapped json_dumps net (n\<lparr>cache := c1\<rparr>) own message pods w")
  from message_owner_wrapped_posts [of json_dumps net "n\<lparr>cache := c1\<rparr>" own message pods w] m
  have "posts w' = posts w @ [owner_request json_dumps n own message pods]"
    by simp
  with g m show ?thesis
    by (cases r) (simp_all add: message_owner_def Let_def)
qed

lemma message_each_single_posts:
  "posts (snd (snd (message_each json_dumps net message [(own, ps)] n w))) =
   posts (snd (snd (message_owner json_dumps net n own message ps w)))"
  by (simp split: prod.splits sum.splits)

lemma Notifier_fields [simp]:
  "hook (Notifier h b) = h"
  "bot_token (Notifier h b) = b"
  "cache (Notifier h b) = TTLCache 128 1800"
  by (simp_all add: Notifier_def)

lemma configured_simps [simp]:
  "configured None = None"
  "configured (Some []) = None"
  "configured (Some (c # cs)) = Some (c # cs)"
  by (simp_all add: configured_def)

lemma str_nat_1: "str_nat (Suc 0) = ''1''"
  by (simp add: str_nat.simps [of "Suc 0"] digit_char_def)

text \<open>
  C6. With no hook configured, each of the three owner-actionable events returns
  right after the structured log and the debug line: nothing is posted, although
  a bot token is configured and the pod has an owner. \<open>message_owners\<close>, called
  on the same input, posts the direct message to the owner.
\<close>

theorem notify_without_hook_skips_owners:
  "posts (snd (snd (notify_scale json_dumps net (Notifier None (Some ''xoxb-1'')) a 3 [pod1] w)))
     = posts w
   \<and> posts (snd (snd (notify_failed_to_scale json_dumps net (Notifier None (Some ''xoxb-1''))
                        sel [pod1] w)))
     = posts w
   \<and> posts (snd (snd (notify_invalid_pod_capacity json_dumps net
                        (Notifier None (Some ''xoxb-1'')) pod1 cap w)))
     = posts w
   \<and> posts (snd (snd (message_owners json_dumps net (Notifier None (Some ''xoxb-1''))
                        message [pod1] w)))
     = posts w @ [owner_request json_dumps (Notifier None (Some ''xoxb-1'')) ''alice''
                    message [pod1]]"
proof -
  let ?n = "Notifier None (Some ''xoxb-1'')"
  have h: "configured (hook ?n) = None"
    by (simp add: Notifier_def configured_def)
  have a: "posts (snd (snd (notify_scale json_dumps net ?n a 3 [pod1] w))) = posts w"
    by (simp add: notify_scale_def h Let_def log_debug_def struct_log_fields)
  have b: "posts (snd (snd (notify_failed_to_scale json_dumps net ?n sel [pod1] w))) = posts w"
    by (simp add: notify_failed_to_scale_def h Let_def log_debug_def struct_log_fields)
  have c: "posts (snd (snd (notify_invalid_pod_capacity json_dumps net ?n pod1 cap w)))
             = posts w"
    by (simp add: notify_invalid_pod_capacity_def h Let_def log_debug_def struct_log_fields)
  have g: "pods_by_owner [pod1] = [(''alice'', [pod1])]"
    by (simp add: pods_by_owner_def setdefault_append_def configured_def pod1_def)
  have t: "configured (bot_token ?n) = Some ''xoxb-1''"
    by (simp add: Notifier_def configured_def)
  have d: "posts (snd (snd (message_owners json_dumps net ?n message [pod1] w)))
     = posts w @ [owner_request json_dumps ?n ''alice'' message [pod1]]"
    by (simp add: message_owners_def t g message_each_single_posts message_owner_miss_posts
        getitem_empty del: message_each.simps)
  from a b c d show ?thesis by simp
qed

text \<open>
  C5. A \<open>RequestException\<close> of the hook request that is not a
  \<open>ConnectionError\<close> (here: the hook URL has no scheme) is not caught by
  \<open>notify_scale\<close>: it is raised to the caller and the owners are not messaged.
  The same exception raised by the direct request is caught in \<open>message_owner\<close>.
\<close>

theorem notify_scale_raises_request_exception:
  "notify_scale dumps0
      (net_raises (RequestException ''Invalid URL: No schema supplied''))
      (Notifier (Some ''hooks.slack.com/services/T0/B0/X'') (Some ''xoxb-1''))
      asg1 3 [pod1] world0 =
     (Inl (RequestException ''Invalid URL: No schema supplied''),
      Notifier (Some ''hooks.slack.com/services/T0/B0/X'') (Some ''xoxb-1''),
      (struct_log ''scale'' [pod1]
         [(''asg'', LStr ''asg-1[us-east-1]''), (''units_requested'', LInt 3)] world0)
        \<lparr>posts := [hook_request ''hooks.slack.com/services/T0/B0/X''
            (''ASG asg-1[us-east-1] scaling up by 3 to new capacity 10'' @ [CHR 0x0A] @
             ''Change triggered by default/p1'')],
         now := 1\<rparr>)
   \<and> fst (message_owners dumps0
            (net_raises (RequestException ''Invalid URL: No schema supplied''))
            (Notifier (Some ''hooks.slack.com/services/T0/B0/X'') (Some ''xoxb-1''))
            ''ASG asg-1[us-east-1] scaling up'' [pod1] world0) = Inr ()"
proof -
  let ?n = "Notifier (Some ''hooks.slack.com/services/T0/B0/X'') (Some ''xoxb-1'')"
  let ?e = "RequestException ''Invalid URL: No schema supplied''"
  have h: "configured (hook ?n) = Some ''hooks.slack.com/services/T0/B0/X''"
    by (simp add: Notifier_def configured_def)
  have s3: "str_int 3 = ''3''" and s10: "str_int 10 = ''10''"
    by (simp_all add: str_int_def str_nat.simps [of 3] str_nat.simps [of 10]
        str_nat_1 digit_char_def)
  have a: "notify_scale dumps0 (net_raises ?e) ?n asg1 3 [pod1] world0 =
     (Inl ?e, ?n,
      (struct_log ''scale'' [pod1]
         [(''asg'', LStr ''asg-1[us-east-1]''), (''units_requested'', LInt 3)] world0)
        \<lparr>posts := [hook_request ''hooks.slack.com/services/T0/B0/X''
            (''ASG asg-1[us-east-1] scaling up by 3 to new capacity 10'' @ [CHR 0x0A] @
             ''Change triggered by default/p1'')],
         now := 1\<rparr>)"
    by (simp add: notify_scale_def h Let_def post_hook_def requests_post_def net_raises_def
        struct_log_fields asg1_def s3 s10 generate_pod_string_def pod_name_def pod1_def world0_def)
  have g: "pods_by_owner [pod1] = [(''alice'', [pod1])]"
    by (simp add: pods_by_owner_def setdefault_append_def configured_def pod1_def)
  have t: "configured (bot_token ?n) = Some ''xoxb-1''"
    by (simp add: Notifier_def configured_def)
  have b: "fst (message_owners dumps0 (net_raises ?e) ?n
                 ''ASG asg-1[us-east-1] scaling up'' [pod1] world0) = Inr ()"
    by (simp add: message_owners_def t g message_owner_def Let_def getitem_empty
        message_owner_wrapped_def requests_post_def net_raises_def)
  from a b show ?thesis by simp
qed


subsection \<open>Fingerprint keys\<close>

lemma map_uid_sort_key: "map uid (sort_key uid pods) = sort (map uid pods)"
proof (rule properties_for_sort [symmetric])
  show "mset (map uid (sort_key uid pods)) = mset (map uid pods)"
    by simp
  show "sorted (map uid (sort_key uid pods))"
    by (rule sorted_sort_key)
qed

lemma md5_input_mset:
  assumes "mset (map uid pods) = mset (map uid pods')"
  shows "md5_input own message pods = md5_input own message pods'"
proof -
  have "sort (map uid pods) = sort (map uid pods')"
  proof (rule properties_for_sort)
    show "mset (sort (map uid pods')) = mset (map uid pods)"
      using assms by simp
    show "sorted (sort (map uid pods'))"
      by (rule sorted_sort)
  qed
  then show ?thesis
    by (simp add: md5_input_def map_uid_sort_key)
qed


lemma replicate_numeral: "replicate (numeral k) x = x # replicate (pred_numeral k) x"
  by (simp add: numeral_eq_Suc)

lemmas md5_eval = md5_hexdigest_def md5_pad_def le_bytes4_def replicate_numeral md5_blocks.simps
  md5_round1_def md5_round2_def md5_round3_def md5_round4_def
  md5_F_def md5_G_def md5_H_def md5_I_def rotate_left_def add32_def not32_def
  hex_le_def hex_byte_def hex_digit_def

lemma md5_amid1: "md5_hexdigest ''amid1'' = ''4d03ea62b34a0dbc582a40e5565f5dcd''"
  by (simp add: md5_eval)

lemma md5_amid1id1: "md5_hexdigest ''amid1id1'' = ''7e774917bd82c27968b64e7f90467047''"
  by (simp add: md5_eval)

lemma md5_amid1id2: "md5_hexdigest ''amid1id2'' = ''8bbc2c2f41d339c1a348590e7f5989a8''"
  by (simp add: md5_eval)

lemma cache_key_pod1: "cache_key ''a'' ''m'' [pod1] = ''v0.md5.4d03ea62b34a0dbc582a40e5565f5dcd''"
  by (simp add: cache_key_def md5_input_def pod1_def md5_amid1)

lemma cache_key_pod1_pod1:
  "cache_key ''a'' ''m'' [pod1, pod1] = ''v0.md5.7e774917bd82c27968b64e7f90467047''"
  by (simp add: cache_key_def md5_input_def pod1_def md5_amid1id1)

lemma cache_key_pod1_pod2:
  "cache_key ''a'' ''m'' [pod1, pod2] = ''v0.md5.8bbc2c2f41d339c1a348590e7f5989a8''"
  by (simp add: cache_key_def md5_input_def pod1_def pod2_def md5_amid1id2)

text \<open>
  C2, as stated, fails: the pods are sorted by unit ID but duplicates are kept, so
  a list that repeats a unit has another key than the list without the repetition,
  although both denote the same set of unit IDs.
\<close>

theorem cache_key_duplicate_counterexample:
  "set (map uid [pod1]) = set (map uid [pod1, pod1])
   \<and> cache_key ''a'' ''m'' [pod1] \<noteq> cache_key ''a'' ''m'' [pod1, pod1]"
  by (simp add: cache_key_pod1 cache_key_pod1_pod1)

text \<open>
  C2, amended. Two unit lists with the same unit IDs, each the same number of
  times, have the same key for every owner and message: the key does not depend
  on the order of the list. In particular the lists \<open>[u1, u2]\<close> and
  \<open>[u2, u1]\<close> have the same key.
\<close>

theorem cache_key_order_independent:
  "(mset (map uid pods) = mset (map uid pods') \<longrightarrow>
      cache_key own message pods = cache_key own message pods')
   \<and> (mset pods = mset pods' \<longrightarrow>
      cache_key own message pods = cache_key own message pods')
   \<and> cache_key own message [u1, u2] = cache_key own message [u2, u1]"
proof -
  have a: "cache_key own message ps = cache_key own message ps'"
    if "mset (map uid ps) = mset (map uid ps')" for ps ps'
    using md5_input_mset [OF that] by (simp add: cache_key_def)
  have b: "mset (map uid ps) = mset (map uid ps')" if "mset ps = mset ps'" for ps ps' :: "pod list"
    using that by (metis mset_map)
  have c: "mset (map uid [u1, u2]) = mset (map uid [u2, u1])"
    by simp
  from a b a [OF c] show ?thesis by blast
qed

theorem cache_key_order_independent_witness:
  "mset (map uid [pod1, pod2]) = mset (map uid [pod2, pod1])
   \<and> mset [pod1, pod2] = mset [pod2, pod1]
   \<and> cache_key ''a'' ''m'' [pod1, pod2] = cache_key ''a'' ''m'' [pod2, pod1]
   \<and> cache_key ''a'' ''m'' [pod2, pod1] = ''v0.md5.8bbc2c2f41d339c1a348590e7f5989a8''"
proof -
  have m: "mset (map uid [pod1, pod2]) = mset (map uid [pod2, pod1])"
    by simp
  have p: "mset [pod1, pod2] = mset [pod2, pod1]"
    by simp
  from m cache_key_order_independent [of "[pod1, pod2]" "[pod2, pod1]" "''a''" "''m''" pod1 pod2]
  have k: "cache_key ''a'' ''m'' [pod1, pod2] = cache_key ''a'' ''m'' [pod2, pod1]"
    by blast
  from m p k cache_key_pod1_pod2 show ?thesis by simp
qed


subsection \<open>The cache\<close>

lemma map_of_del_key_same: "map_of (del_key k xs @ [(k, y)]) k = Some y"
  by (induction xs) (auto simp: del_key_def)

lemma map_of_del_key_other: "k' \<noteq> k \<Longrightarrow> map_of (del_key k' xs @ [(k', y)]) k = map_of xs k"
  by (induction xs) (auto simp: del_key_def)

lemma map_of_filter_keep:
  "map_of xs k = Some y \<Longrightarrow> P (k, y) \<Longrightarrow> map_of (filter P xs) k = Some y"
  by (induction xs) (auto split: if_splits)

lemma popitems_not_full: "length (items c) < maxsize c \<Longrightarrow> popitems c = c"
  by (simp add: popitems.simps)

lemma maxsize_popitems [simp]: "maxsize (popitems c) = maxsize c"
  by (induction c rule: popitems.induct) (subst popitems.simps, simp)

lemma ttl_popitems [simp]: "ttl (popitems c) = ttl c"
  by (induction c rule: popitems.induct) (subst popitems.simps, simp)

lemma getitem_miss:
  "fst (getitem c t k) = None \<longleftrightarrow>
     (case map_of (items c) k of None \<Rightarrow> True | Some (v, e) \<Rightarrow> \<not> t < e)"
  by (auto simp: getitem_def split: option.splits)


lemma setitem_stores:
  assumes "maxsize c \<ge> 1"
  shows "map_of (items (snd (setitem c t k v))) k = Some (v, t + ttl c)"
  using assms
  by (auto simp: setitem_def expire_def Let_def map_of_del_key_same simp del: map_of_append)

lemma setitem_fields [simp]:
  "maxsize (snd (setitem c t k v)) = maxsize c"
  "ttl (snd (setitem c t k v)) = ttl c"
  by (auto simp: setitem_def expire_def Let_def)

text \<open>A call that finds its key cached and not expired sends nothing.\<close>

lemma message_owner_hit:
  assumes "map_of (items (cache n)) (cache_key own message pods) = Some ((), e)"
    and "now w < e"
  shows "message_owner json_dumps net n own message pods w =
           (Inr (),
            n\<lparr>cache := (cache n)\<lparr>items :=
                 del_key (cache_key own message pods) (items (cache n)) @
                 [(cache_key own message pods, (), e)]\<rparr>\<rparr>,
            w)"
  using assms by (simp add: message_owner_def getitem_def Let_def)

text \<open>A call that does not find its key, or finds it expired, posts the request.\<close>

lemma message_owner_miss:
  assumes "fst (getitem (cache n) (now w) (cache_key own message pods)) = None"
    and "net (posts w) (owner_request json_dumps n own message pods) = (out, dt)"
  shows "message_owner json_dumps net n own message pods w =
     (case out of
        Response text \<Rightarrow>
          (Inr (),
           n\<lparr>cache := snd (setitem (snd (getitem (cache n) (now w) (cache_key own message pods)))
                              (now w + dt) (cache_key own message pods) ())\<rparr>,
           log_debug (''SLACK: '' @ text)
             (w\<lparr>posts := posts w @ [owner_request json_dumps n own message pods],
                now := now w + dt\<rparr>))
      | Raises e \<Rightarrow>
          if is_RequestException e
          then (Inr (),
           n\<lparr>cache := snd (setitem (snd (getitem (cache n) (now w) (cache_key own message pods)))
                              (now w + dt) (cache_key own message pods) ())\<rparr>,
           log_critical (''Failed to SLACK: '' @ exn_str e)
             (w\<lparr>posts := posts w @ [owner_request json_dumps n own message pods],
                now := now w + dt\<rparr>))
          else (Inl e,
           n\<lparr>cache := snd (getitem (cache n) (now w) (cache_key own message pods))\<rparr>,
           w\<lparr>posts := posts w @ [owner_request json_dumps n own message pods],
             now := now w + dt\<rparr>))"
proof -
  obtain c1 where g: "getitem (cache n) (now w) (cache_key own message pods) = (None, c1)"
    using assms(1) by (cases "getitem (cache n) (now w) (cache_key own message pods)") simp
  show ?thesis
    using assms(2)
    by (simp add: message_owner_def Let_def g message_owner_wrapped_def requests_post_def
        log_debug_def log_critical_def split: outcome.splits)
qed

subsection \<open>Distinct fingerprints\<close>

lemma key_ab: "cache_key ''a'' ''m'' [pod_a, pod_b] = cache_key ''a'' ''m'' [pod_ab]"
  by (simp add: cache_key_def md5_input_def pod_a_def pod_b_def pod_ab_def)

lemma TTLCache_fields [simp]:
  "maxsize (TTLCache m t) = m" "ttl (TTLCache m t) = t" "items (TTLCache m t) = []"
  by (simp_all add: TTLCache_def)

text \<open>The first call on a new notifier, on a network that answers.\<close>

lemma first_call_ok:
  "message_owner dumps0 net_ok (Notifier h b) own message pods world0 =
     (Inr (),
      (Notifier h b)\<lparr>cache := snd (setitem (TTLCache 128 1800) 1 (cache_key own message pods) ())\<rparr>,
      log_debug ''SLACK: ok''
        (world0\<lparr>posts := [owner_request dumps0 (Notifier h b) own message pods], now := 1\<rparr>))"
proof -
  have m: "fst (getitem (cache (Notifier h b)) (now world0) (cache_key own message pods)) = None"
    by (simp add: getitem_empty)
  have n: "net_ok (posts world0) (owner_request dumps0 (Notifier h b) own message pods)
             = (Response ''ok'', 1)"
    by (simp add: net_ok_def)
  show ?thesis
    using message_owner_miss
      [where n = "Notifier h b" and w = world0 and net = net_ok and json_dumps = dumps0, OF m n]
    by (simp add: getitem_empty world0_def)
qed

text \<open>
  C3, as stated, fails: the unit IDs are concatenated with nothing between them,
  so the unit-ID sets {ab} and {a, b} give the same key for the same owner and
  message; after a direct message about the first, the call about the second
  sends nothing.
\<close>

theorem fingerprint_collision_counterexample:
  "set (map uid [pod_ab]) \<noteq> set (map uid [pod_a, pod_b])
   \<and> cache_key ''a'' ''m'' [pod_ab] = cache_key ''a'' ''m'' [pod_a, pod_b]
   \<and> posts (snd (snd (message_owner dumps0 net_ok (Notifier None (Some ''xoxb-1''))
                         ''a'' ''m'' [pod_ab] world0))) =
       [owner_request dumps0 (Notifier None (Some ''xoxb-1'')) ''a'' ''m'' [pod_ab]]
   \<and> posts (snd (snd (message_owner dumps0 net_ok
        (fst (snd (message_owner dumps0 net_ok (Notifier None (Some ''xoxb-1''))
                     ''a'' ''m'' [pod_ab] world0)))
        ''a'' ''m'' [pod_a, pod_b]
        (snd (snd (message_owner dumps0 net_ok (Notifier None (Some ''xoxb-1''))
                     ''a'' ''m'' [pod_ab] world0)))))) =
       [owner_request dumps0 (Notifier None (Some ''xoxb-1'')) ''a'' ''m'' [pod_ab]]"
proof -
  let ?N = "Notifier None (Some ''xoxb-1'')"
  let ?k = "cache_key ''a'' ''m'' [pod_ab]"
  let ?n1 = "?N\<lparr>cache := snd (setitem (TTLCache 128 1800) 1 ?k ())\<rparr>"
  let ?w1 = "log_debug ''SLACK: ok''
        (world0\<lparr>posts := [owner_request dumps0 ?N ''a'' ''m'' [pod_ab]], now := 1\<rparr>)"
  have s: "set (map uid [pod_ab]) \<noteq> set (map uid [pod_a, pod_b])"
    by (simp add: pod_a_def pod_b_def pod_ab_def)
  have f: "message_owner dumps0 net_ok ?N ''a'' ''m'' [pod_ab] world0 = (Inr (), ?n1, ?w1)"
    by (rule first_call_ok)
  have st: "map_of (items (cache ?n1)) (cache_key ''a'' ''m'' [pod_a, pod_b]) = Some ((), 1 + 1800)"
    using setitem_stores [of "TTLCache 128 1800" 1 ?k "()"] by (simp add: key_ab)
  have t: "now ?w1 < 1 + 1800"
    by (simp add: log_debug_def)
  have p1: "posts ?w1 = [owner_request dumps0 ?N ''a'' ''m'' [pod_ab]]"
    by (simp add: log_debug_def)
  from message_owner_hit [OF st t, of dumps0 net_ok]
  have h: "snd (snd (message_owner dumps0 net_ok ?n1 ''a'' ''m'' [pod_a, pod_b] ?w1)) = ?w1"
    by simp
  show ?thesis
    unfolding f using s key_ab h p1 by simp
qed

lemma concat_same_length_inj:
  assumes "\<forall>x \<in> set xs. length x = l" "\<forall>y \<in> set ys. length y = l" "0 < l"
    and "concat xs = concat ys"
  shows "xs = ys"
  using assms
proof (induction xs arbitrary: ys)
  case Nil
  then show ?case by (cases ys) auto
next
  case (Cons x xs)
  show ?case
  proof (cases ys)
    case Nil
    with Cons.prems show ?thesis by auto
  next
    case (Cons y ys')
    with Cons.prems have "length x = length y" and e: "x @ concat xs = y @ concat ys'"
      by auto
    then have "x = y" and "concat xs = concat ys'"
      by auto
    with Cons.IH [of ys'] Cons.prems Cons show ?thesis
      by auto
  qed
qed

text \<open>
  C3, amended. Changing only the owner, or only the message text, changes the
  byte string that is hashed; changing the set of unit IDs changes it when all
  unit IDs have one length, which is not zero. (The key is the MD5 digest of that
  string.) For the units with the IDs id1 and id2, the direct message about
  \<open>[u1]\<close> and then the one about \<open>[u1, u2]\<close>, same owner and message, are
  both sent.
\<close>

theorem md5_input_distinct:
  "(own \<noteq> own' \<longrightarrow> md5_input own message pods \<noteq> md5_input own' message pods)
   \<and> (message \<noteq> message' \<longrightarrow> md5_input own message pods \<noteq> md5_input own message' pods)
   \<and> (0 < l \<and> (\<forall>p \<in> set pods \<union> set pods'. length (uid p) = l)
        \<and> set (map uid pods) \<noteq> set (map uid pods') \<longrightarrow>
        md5_input own message pods \<noteq> md5_input own message pods')
   \<and> posts (snd (snd (message_owner dumps0 net_ok
        (fst (snd (message_owner dumps0 net_ok (Notifier None (Some ''xoxb-1''))
                     ''a'' ''m'' [pod1] world0)))
        ''a'' ''m'' [pod1, pod2]
        (snd (snd (message_owner dumps0 net_ok (Notifier None (Some ''xoxb-1''))
                     ''a'' ''m'' [pod1] world0)))))) =
       [owner_request dumps0 (Notifier None (Some ''xoxb-1'')) ''a'' ''m'' [pod1],
        owner_request dumps0 (Notifier None (Some ''xoxb-1'')) ''a'' ''m'' [pod1, pod2]]"
proof -
  have a: "own \<noteq> own' \<longrightarrow> md5_input own message pods \<noteq> md5_input own' message pods"
    by (simp add: md5_input_def)
  have b: "message \<noteq> message' \<longrightarrow> md5_input own message pods \<noteq> md5_input own message' pods"
    by (simp add: md5_input_def)
  have c: "md5_input own message pods \<noteq> md5_input own message pods'"
    if l: "0 < l" and len: "\<forall>p \<in> set pods \<union> set pods'. length (uid p) = l"
      and ne: "set (map uid pods) \<noteq> set (map uid pods')"
  proof
    assume "md5_input own message pods = md5_input own message pods'"
    then have "concat (sort (map uid pods)) = concat (sort (map uid pods'))"
      by (simp add: md5_input_def map_uid_sort_key)
    moreover have "\<forall>x \<in> set (sort (map uid pods)). length x = l"
      and "\<forall>y \<in> set (sort (map uid pods')). length y = l"
      using len by auto
    ultimately have "sort (map uid pods) = sort (map uid pods')"
      using l by (intro concat_same_length_inj [of _ l])
    then have "set (sort (map uid pods)) = set (sort (map uid pods'))"
      by simp
    with ne show False by simp
  qed
  let ?N = "Notifier None (Some ''xoxb-1'')"
  let ?k = "cache_key ''a'' ''m'' [pod1]"
  let ?n1 = "?N\<lparr>cache := snd (setitem (TTLCache 128 1800) 1 ?k ())\<rparr>"
  let ?w1 = "log_debug ''SLACK: ok''
        (world0\<lparr>posts := [owner_request dumps0 ?N ''a'' ''m'' [pod1]], now := 1\<rparr>)"
  have f: "message_owner dumps0 net_ok ?N ''a'' ''m'' [pod1] world0 = (Inr (), ?n1, ?w1)"
    by (rule first_call_ok)
  have it: "items (cache ?n1) = [(?k, (), 1801)]"
    by (simp add: setitem_def expire_def Let_def popitems_not_full del_key_def)
  have m: "fst (getitem (cache ?n1) (now ?w1) (cache_key ''a'' ''m'' [pod1, pod2])) = None"
    unfolding getitem_miss it by (simp add: cache_key_pod1 cache_key_pod1_pod2)
  obtain out dt where n: "net_ok (posts ?w1) (owner_request dumps0 ?n1 ''a'' ''m'' [pod1, pod2]) = (out, dt)"
    by (simp add: net_ok_def)
  have d: "posts (snd (snd (message_owner dumps0 net_ok ?n1 ''a'' ''m'' [pod1, pod2] ?w1))) =
       [owner_request dumps0 ?N ''a'' ''m'' [pod1],
        owner_request dumps0 ?N ''a'' ''m'' [pod1, pod2]]"
    using message_owner_miss_posts [OF m, of dumps0 net_ok] by (simp add: log_debug_def)
  from a b c d show ?thesis
    unfolding f by auto
qed

theorem md5_input_distinct_witness:
  "''a'' \<noteq> ''b''
   \<and> md5_input ''a'' ''m'' [pod1] \<noteq> md5_input ''b'' ''m'' [pod1]
   \<and> ''m'' \<noteq> ''n''
   \<and> md5_input ''a'' ''m'' [pod1] \<noteq> md5_input ''a'' ''n'' [pod1]
   \<and> (0 :: nat) < 3
   \<and> length (uid pod1) = 3
   \<and> length (uid pod2) = 3
   \<and> set (map uid [pod1]) \<noteq> set (map uid [pod1, pod2])
   \<and> md5_input ''a'' ''m'' [pod1] \<noteq> md5_input ''a'' ''m'' [pod1, pod2]"
proof -
  have h: "''a'' \<noteq> ''b''" "''m'' \<noteq> ''n''" "(0 :: nat) < 3"
    "length (uid pod1) = 3" "length (uid pod2) = 3"
    "set (map uid [pod1]) \<noteq> set (map uid [pod1, pod2])"
    by (simp_all add: pod1_def pod2_def)
  then have l: "\<forall>p \<in> set [pod1] \<union> set [pod1, pod2]. length (uid p) = 3"
    by simp
  from h l md5_input_distinct [of "''a''" "''b''" "''m''" "[pod1]" "''n''" 3 "[pod1, pod2]"]
  have "md5_input ''a'' ''m'' [pod1] \<noteq> md5_input ''b'' ''m'' [pod1]"
    and "md5_input ''a'' ''m'' [pod1] \<noteq> md5_input ''a'' ''n'' [pod1]"
    and "md5_input ''a'' ''m'' [pod1] \<noteq> md5_input ''a'' ''m'' [pod1, pod2]"
    by blast+
  with h show ?thesis by simp
qed

subsection \<open>The window of a fingerprint\<close>




















































end
